theory Spec2Isabelle
  imports Complex_Main "HOL-Library.Sublist"
begin

section \<open>JavaScript strings\<close>

text \<open>
  The chat client is the React hook \<open>useChatSession\<close>. Its strings are modelled by the
  bytes of their UTF-8 encoding (\<^typ>\<open>string\<close>), so that the welcome text with its emoji,
  the lines of the event stream and the request bodies are the texts that travel on the
  wire. A string that is not well-formed UTF-16 has no such encoding and is outside
  the model.

  \<open>String.prototype.trim\<close> removes white space and line terminators at both ends. Their
  encodings are listed in \<open>whitespace_codes\<close>: TAB, LF, VT, FF, CR, SPACE, U+00A0, U+1680,
  U+2000 to U+200A, U+2028, U+2029, U+202F, U+205F, U+3000 and U+FEFF.
\<close>

definition whitespace_codes :: "string list" where
  "whitespace_codes =
    [[CHR 0x09], [CHR 0x0A], [CHR 0x0B], [CHR 0x0C], [CHR 0x0D], [CHR 0x20],
     [CHR 0xC2, CHR 0xA0],
     [CHR 0xE1, CHR 0x9A, CHR 0x80],
     [CHR 0xE2, CHR 0x80, CHR 0x80], [CHR 0xE2, CHR 0x80, CHR 0x81],
     [CHR 0xE2, CHR 0x80, CHR 0x82], [CHR 0xE2, CHR 0x80, CHR 0x83],
     [CHR 0xE2, CHR 0x80, CHR 0x84], [CHR 0xE2, CHR 0x80, CHR 0x85],
     [CHR 0xE2, CHR 0x80, CHR 0x86], [CHR 0xE2, CHR 0x80, CHR 0x87],
     [CHR 0xE2, CHR 0x80, CHR 0x88], [CHR 0xE2, CHR 0x80, CHR 0x89],
     [CHR 0xE2, CHR 0x80, CHR 0x8A],
     [CHR 0xE2, CHR 0x80, CHR 0xA8], [CHR 0xE2, CHR 0x80, CHR 0xA9],
     [CHR 0xE2, CHR 0x80, CHR 0xAF],
     [CHR 0xE2, CHR 0x81, CHR 0x9F],
     [CHR 0xE3, CHR 0x80, CHR 0x80],
     [CHR 0xEF, CHR 0xBB, CHR 0xBF]]"

text \<open>The number of bytes of the code that \<open>s\<close> starts with, 0 when it starts with none.\<close>

definition code_width :: "string list \<Rightarrow> string \<Rightarrow> nat" where
  "code_width codes s =
     (case find (\<lambda>w. prefix w s) codes of None \<Rightarrow> 0 | Some w \<Rightarrow> length w)"

function strip :: "string list \<Rightarrow> string \<Rightarrow> string" where
  "strip codes s =
     (if code_width codes s = 0 \<or> s = [] then s
      else strip codes (drop (code_width codes s) s))"
  by pat_completeness auto
termination
  by (relation "measure (\<lambda>(codes, s). length s)") auto

declare strip.simps [simp del]

definition trimStart :: "string \<Rightarrow> string" where
  "trimStart s = strip whitespace_codes s"

definition trimEnd :: "string \<Rightarrow> string" where
  "trimEnd s = rev (strip (map rev whitespace_codes) (rev s))"

definition trim :: "string \<Rightarrow> string" where
  "trim s = trimEnd (trimStart s)"

text \<open>
  \<open>toLowerCase\<close> on the letters A to Z. The hook lower-cases a string only to test whether
  it starts with \<open>http\<close>, and no character outside A to Z lower-cases to \<open>h\<close>, \<open>t\<close> or
  \<open>p\<close>, so the test is the same under the full Unicode mapping.
\<close>

definition lower_char :: "char \<Rightarrow> char" where
  "lower_char c =
     (if 65 \<le> (of_char c :: nat) \<and> (of_char c :: nat) \<le> 90
      then char_of ((of_char c :: nat) + 32) else c)"

definition toLowerCase :: "string \<Rightarrow> string" where
  "toLowerCase s = map lower_char s"

text \<open>\<open>text.split('\n')\<close>: the pieces between line feeds, one more than there are line feeds.\<close>

primrec split_lines :: "string \<Rightarrow> string list" where
  "split_lines [] = [[]]"
| "split_lines (c # cs) =
     (if c = CHR 0x0A then [] # split_lines cs
      else (case split_lines cs of
              [] \<Rightarrow> [[c]]
            | l # ls \<Rightarrow> (c # l) # ls))"

text \<open>The decimal digits of a number, as a template literal prints a status code.\<close>

function string_of_nat :: "nat \<Rightarrow> string" where
  "string_of_nat n =
     (if n < 10 then [char_of (48 + n)]
      else string_of_nat (n div 10) @ [char_of (48 + n mod 10)])"
  by pat_completeness auto
termination
  by (relation "measure id") auto

declare string_of_nat.simps [simp del]

section \<open>JavaScript values and the runtime\<close>

text \<open>
  The values that \<open>JSON.parse\<close> and \<open>response.json()\<close> return, and \<open>undefined\<close> for a
  property that an object does not have.
\<close>

datatype jsval =
    JUndefined
  | JNull
  | JBool bool
  | JNum rat
  | JStr string
  | JArr "jsval list"
  | JObj "(string \<times> jsval) list"

text \<open>
  A property read \<open>v.key\<close>. On \<open>null\<close> and \<open>undefined\<close> it throws a TypeError, which is
  the value \<open>None\<close>. The hook reads the keys \<open>chunk\<close>, \<open>detail\<close>, \<open>message\<close> and \<open>error\<close>
  of parsed JSON only, none of which a prototype of a JSON value defines, so every
  value other than an object has them undefined.
\<close>

fun get_prop :: "jsval \<Rightarrow> string \<Rightarrow> jsval option" where
  "get_prop JUndefined key = None"
| "get_prop JNull key = None"
| "get_prop (JObj kvs) key =
     Some (case map_of kvs key of None \<Rightarrow> JUndefined | Some v \<Rightarrow> v)"
| "get_prop v key = Some JUndefined"

text \<open>The values that a condition, \<open>||\<close> and \<open>&&\<close> take for true.\<close>

fun truthy :: "jsval \<Rightarrow> bool" where
  "truthy JUndefined = False"
| "truthy JNull = False"
| "truthy (JBool b) = b"
| "truthy (JNum q) = (q \<noteq> 0)"
| "truthy (JStr s) = (s \<noteq> [])"
| "truthy (JArr vs) = True"
| "truthy (JObj kvs) = True"

text \<open>\<open>typeof v === 'object'\<close>, which holds of \<open>null\<close> too.\<close>

fun typeof_object :: "jsval \<Rightarrow> bool" where
  "typeof_object JNull = True"
| "typeof_object (JArr vs) = True"
| "typeof_object (JObj kvs) = True"
| "typeof_object v = False"

text \<open>
  What the hook takes from the JavaScript runtime without defining it: \<open>JSON.parse\<close>
  (\<open>None\<close> when it throws a SyntaxError), \<open>JSON.stringify\<close>, the conversion to a string of
  a value that is not a string, and the message of the TypeError that the read of a
  given property on \<open>null\<close> throws, which differs from engine to engine. Every definition below takes
  the runtime as its parameter \<open>rt\<close>, and every theorem holds for every runtime.
\<close>

record js_runtime =
  JSON_parse :: "string \<Rightarrow> jsval option"
  JSON_stringify :: "jsval \<Rightarrow> string"
  ToString :: "jsval \<Rightarrow> string"
  null_read_message :: "string \<Rightarrow> string"

text \<open>The string that \<open>content + v\<close> appends and that \<open>new Error(v)\<close> stores.\<close>

definition to_string :: "js_runtime \<Rightarrow> jsval \<Rightarrow> string" where
  "to_string rt v = (case v of JStr s \<Rightarrow> s | _ \<Rightarrow> ToString rt v)"

text \<open>The fields of a thrown value that the \<open>catch\<close> branch of \<open>sendMessage\<close> reads.\<close>

record js_error =
  name :: string
  status :: "nat option"
  message :: string

definition type_error :: "js_runtime \<Rightarrow> string \<Rightarrow> js_error" where
  "type_error rt key =
     \<lparr>name = ''TypeError'', status = None, message = null_read_message rt key\<rparr>"

section \<open>The state of the hook\<close>

definition SESSION_TTL_MS :: int where
  "SESSION_TTL_MS = 24 * 60 * 60 * 1000"

datatype role = User | Assistant

record chat_message =
  msg_id :: int
  role :: role
  content :: string

text \<open>
  The object that the save effect writes under the key \<open>resumeChatSession\<close>. A field
  that a stored object lacks reads as the falsy value of its type (\<open>0\<close>, the empty
  string, the empty list, \<open>None\<close> for \<open>null\<close> and \<open>undefined\<close>), which is how the hook
  treats it.
\<close>

record saved_session =
  saved_userName :: string
  saved_company :: string
  saved_jobPosting :: "string option"
  saved_sessionId :: string
  saved_suggestedPrompts :: "string list option"
  saved_messages :: "chat_message list"
  savedAt :: int

text \<open>
  What \<open>localStorage\<close> holds under that key: nothing, a string from which the restore
  effect gets no object (it is empty, or \<open>JSON.parse\<close> throws on it, or it parses to
  \<open>null\<close>), or a stored session.
\<close>

datatype storage_item = NoItem | Corrupt | Item saved_session

text \<open>The bodies of the two requests that the hook sends; \<open>None\<close> is \<open>null\<close>.\<close>

record session_request =
  user_name :: string
  req_company :: "string option"
  job_posting :: "string option"
  job_url :: "string option"
  turnstile_token :: "string option"

record chat_request =
  query :: string
  chat_session_id :: string
  chat_user_name :: string
  chat_company :: "string option"
  chat_job_posting :: "string option"

datatype request = SessionRequest session_request | ChatRequest chat_request

text \<open>The body of a successful reply to the session request, as far as the hook reads it.\<close>

record session_data =
  session_id :: string
  welcome_message :: string
  suggested_prompts :: "string list option"

text \<open>
  A call of \<open>sendMessage\<close> that is suspended at an \<open>await\<close>: the identifier of its
  assistant message, its abort controller (an index into the store of controllers), and
  whether it has the response and is reading the body.
\<close>

record turn =
  aiMessageId :: int
  signal :: nat
  reading :: bool

text \<open>A call of \<open>handleStart\<close> suspended at its \<open>fetch\<close>: the local values of \<open>sid\<close> and \<open>welcome\<close>.\<close>

record start_call =
  local_sid :: string
  local_welcome :: string

text \<open>
  The React state and the two refs of the hook, followed by what the hook shares with
  its environment: the stored item, the \<open>aborted\<close> flag of every abort controller made by
  \<open>sendMessage\<close>, the requests sent so far, and the suspended calls.
\<close>

record chat_session =
  userName :: string
  company :: string
  jobPosting :: "string option"
  sessionId :: string
  hasStarted :: bool
  suggestedPrompts :: "string list option"
  messages :: "chat_message list"
  isLoading :: bool
  error :: "string option"
  isLoadingRef :: bool
  streamAbortRef :: "nat option"
  showResumeModal :: bool
  pendingSession :: "saved_session option"
  localStorage :: storage_item
  controllers :: "bool list"
  network :: "request list"
  inflight :: "turn list"
  starting :: "start_call list"

text \<open>The hook as it is first rendered, with a given stored item and request log.\<close>

definition initial :: "storage_item \<Rightarrow> request list \<Rightarrow> chat_session" where
  "initial item sent =
     \<lparr>userName = [], company = [], jobPosting = Some [], sessionId = [],
      hasStarted = False, suggestedPrompts = None, messages = [], isLoading = False,
      error = None, isLoadingRef = False, streamAbortRef = None,
      showResumeModal = False, pendingSession = None, localStorage = item,
      controllers = [], network = sent, inflight = [], starting = []\<rparr>"

section \<open>Session persistence\<close>

text \<open>The effect that runs on mount, with the value of \<open>Date.now()\<close>.\<close>

definition restore_effect :: "int \<Rightarrow> chat_session \<Rightarrow> chat_session" where
  "restore_effect now s =
     (case localStorage s of
        NoItem \<Rightarrow> s
      | Corrupt \<Rightarrow> s
      | Item session \<Rightarrow>
          if savedAt session \<noteq> 0 \<and> now - savedAt session > SESSION_TTL_MS
          then s\<lparr>localStorage := NoItem\<rparr>
          else if saved_userName session \<noteq> [] \<and> length (saved_messages session) > 0
          then s\<lparr>pendingSession := Some session, showResumeModal := True\<rparr>
          else s)"

text \<open>The effect that runs after a render in which one of its dependencies changed.\<close>

definition save_effect :: "int \<Rightarrow> chat_session \<Rightarrow> chat_session" where
  "save_effect now s =
     (if hasStarted s \<and> length (messages s) > 0
      then s\<lparr>localStorage := Item
             \<lparr>saved_userName = userName s, saved_company = company s,
              saved_jobPosting = jobPosting s, saved_sessionId = sessionId s,
              saved_suggestedPrompts = suggestedPrompts s,
              saved_messages = messages s, savedAt = now\<rparr>\<rparr>
      else s)"

definition clearSession :: "chat_session \<Rightarrow> chat_session" where
  "clearSession s = s\<lparr>localStorage := NoItem\<rparr>"

definition handleContinueSession :: "chat_session \<Rightarrow> chat_session" where
  "handleContinueSession s =
     (case pendingSession s of
        Some p \<Rightarrow>
          s\<lparr>userName := saved_userName p,
            company := saved_company p,
            jobPosting := Some (case saved_jobPosting p of None \<Rightarrow> [] | Some j \<Rightarrow> j),
            messages := saved_messages p,
            sessionId := saved_sessionId p,
            suggestedPrompts := saved_suggestedPrompts p,
            hasStarted := True,
            showResumeModal := False, pendingSession := None\<rparr>
      | None \<Rightarrow> s\<lparr>showResumeModal := False, pendingSession := None\<rparr>)"

definition handleStartFresh :: "chat_session \<Rightarrow> chat_session" where
  "handleStartFresh s = (clearSession s)\<lparr>showResumeModal := False, pendingSession := None\<rparr>"

text \<open>\<open>streamAbortRef.current?.abort()\<close> sets the flag of the controller that the ref holds.\<close>

definition abort_stream :: "chat_session \<Rightarrow> chat_session" where
  "abort_stream s =
     (case streamAbortRef s of
        None \<Rightarrow> s
      | Some c \<Rightarrow> s\<lparr>controllers := (controllers s)[c := True]\<rparr>)"

definition handleReset :: "chat_session \<Rightarrow> chat_session" where
  "handleReset s =
     clearSession
       ((abort_stream s)
          \<lparr>hasStarted := False, messages := [], userName := [], company := [],
           jobPosting := Some [], sessionId := [], suggestedPrompts := None,
           error := None\<rparr>)"

definition handleKeyDown :: "string \<Rightarrow> chat_session \<Rightarrow> chat_session" where
  "handleKeyDown key s =
     (if key = ''Escape''
      then (if showResumeModal s then handleStartFresh s
            else if hasStarted s then handleReset s
            else s)
      else s)"

text \<open>
  A page load: the component is mounted with its initial state, the calls suspended in
  the page that was left are gone with it, the stored item stays, and the restore effect
  runs.
\<close>

definition mount :: "int \<Rightarrow> chat_session \<Rightarrow> chat_session" where
  "mount now s = restore_effect now (initial (localStorage s) (network s))"

section \<open>Starting a chat\<close>

text \<open>\<open>x || null\<close> on a string.\<close>

definition or_null :: "string \<Rightarrow> string option" where
  "or_null x = (if x = [] then None else Some x)"

text \<open>
  \<open>jobInput?.trim().toLowerCase().startsWith('http')\<close>, which is \<open>undefined\<close>, and so
  false as a condition, when \<open>jobInput\<close> is \<open>null\<close> or \<open>undefined\<close>.
\<close>

definition isUrl :: "string option \<Rightarrow> bool" where
  "isUrl jobInput =
     (case jobInput of
        None \<Rightarrow> False
      | Some j \<Rightarrow> prefix ''http'' (toLowerCase (trim j)))"

definition session_request_body ::
  "string \<Rightarrow> string \<Rightarrow> string option \<Rightarrow> string option \<Rightarrow> session_request" where
  "session_request_body name' companyName jobInput turnstileToken =
     \<lparr>user_name = name',
      req_company = or_null companyName,
      job_posting =
        (if isUrl jobInput then None
         else (case jobInput of None \<Rightarrow> None | Some j \<Rightarrow> or_null j)),
      job_url = (if isUrl jobInput then jobInput else None),
      turnstile_token =
        (case turnstileToken of None \<Rightarrow> None | Some t \<Rightarrow> or_null t)\<rparr>"

text \<open>The waving-hand emoji U+1F44B of the local welcome message.\<close>

definition waving_hand :: string where
  "waving_hand = [CHR 0xF0, CHR 0x9F, CHR 0x91, CHR 0x8B]"

definition local_welcome_message :: "string \<Rightarrow> string \<Rightarrow> string" where
  "local_welcome_message name' companyName =
     ''Hi '' @ name' @ ''! '' @ waving_hand @
     '' I'm an AI assistant here to tell you about Rayhan Patel's professional background and qualifications'' @
     (if companyName \<noteq> [] then '' for '' @ companyName else []) @
     ''. Feel free to ask me anything about his experience, skills, or projects. You can use the quick questions below or type your own!''"

text \<open>
  \<open>handleStart\<close> up to its \<open>fetch\<close>: the three state setters, the local identifier (the
  value \<open>uuid\<close> of \<open>crypto.randomUUID()\<close>) and welcome message, and the request.
\<close>

definition handleStart_call ::
  "string \<Rightarrow> string \<Rightarrow> string option \<Rightarrow> string option \<Rightarrow> string \<Rightarrow> chat_session \<Rightarrow> chat_session" where
  "handleStart_call name' companyName jobInput turnstileToken uuid s =
     s\<lparr>userName := name',
       company := companyName,
       jobPosting := jobInput,
       network := network s @
         [SessionRequest (session_request_body name' companyName jobInput turnstileToken)],
       starting := starting s @
         [\<lparr>local_sid = uuid, local_welcome = local_welcome_message name' companyName\<rparr>]\<rparr>"

text \<open>
  How the request ends: with an ok response and its body, with a response that is not
  ok, or with an exception (a network failure, the abort after 30 seconds, a body that
  is not JSON), which the \<open>catch\<close> only logs.
\<close>

datatype start_outcome = SessionOk session_data | SessionNotOk | SessionThrew

text \<open>\<open>handleStart\<close> from its \<open>fetch\<close> on, for the \<open>k\<close>-th suspended call; \<open>now\<close> is \<open>Date.now()\<close>.\<close>

definition handleStart_settle ::
  "nat \<Rightarrow> start_outcome \<Rightarrow> int \<Rightarrow> chat_session \<Rightarrow> chat_session" where
  "handleStart_settle k outcome now s =
     (if k < length (starting s)
      then
        (let c = starting s ! k;
             sid = (case outcome of SessionOk data \<Rightarrow> session_id data | _ \<Rightarrow> local_sid c);
             welcome' =
               (case outcome of SessionOk data \<Rightarrow> welcome_message data | _ \<Rightarrow> local_welcome c);
             prompts =
               (case outcome of SessionOk data \<Rightarrow> suggested_prompts data | _ \<Rightarrow> None)
         in s\<lparr>sessionId := sid,
              suggestedPrompts := prompts,
              messages := [\<lparr>msg_id = now, role = Assistant, content = welcome'\<rparr>],
              hasStarted := True,
              starting := take k (starting s) @ drop (Suc k) (starting s)\<rparr>)
      else s)"

text \<open>A call of \<open>handleStart\<close> that nothing interleaves with.\<close>

definition handleStart ::
  "string \<Rightarrow> string \<Rightarrow> string option \<Rightarrow> string option \<Rightarrow> string \<Rightarrow> start_outcome \<Rightarrow> int
     \<Rightarrow> chat_session \<Rightarrow> chat_session" where
  "handleStart name' companyName jobInput turnstileToken uuid outcome now s =
     handleStart_settle (length (starting s)) outcome now
       (handleStart_call name' companyName jobInput turnstileToken uuid s)"

section \<open>Sending a message\<close>

definition rate_limit_error :: string where
  "rate_limit_error =
     ''Too many requests. Please wait a minute before sending another message.''"

definition send_failed_error :: string where
  "send_failed_error = ''Failed to send message. Please try again.''"

definition fallback_content :: string where
  "fallback_content =
     ''I apologize, but I'm having trouble connecting right now. Please try again in a moment.''"

text \<open>
  \<open>sendMessage\<close> up to its \<open>fetch\<close>; \<open>now1\<close> and \<open>now2\<close> are its two readings of
  \<open>Date.now()\<close>.
\<close>

definition sendMessage :: "string \<Rightarrow> int \<Rightarrow> int \<Rightarrow> chat_session \<Rightarrow> chat_session" where
  "sendMessage messageText now1 now2 s =
     (if trim messageText = [] \<or> isLoadingRef s then s
      else
        s\<lparr>error := None,
          messages := (messages s @ [\<lparr>msg_id = now1, role = User, content = messageText\<rparr>])
                        @ [\<lparr>msg_id = now2 + 1, role = Assistant, content = []\<rparr>],
          isLoading := True,
          isLoadingRef := True,
          controllers := controllers s @ [False],
          streamAbortRef := Some (length (controllers s)),
          network := network s @
            [ChatRequest
               \<lparr>query = messageText, chat_session_id = sessionId s,
                chat_user_name = userName s, chat_company = or_null (company s),
                chat_job_posting =
                  (case jobPosting s of None \<Rightarrow> None | Some j \<Rightarrow> or_null j)\<rparr>],
          inflight := inflight s @
            [\<lparr>aiMessageId = now2 + 1, signal = length (controllers s), reading = False\<rparr>]\<rparr>)"

text \<open>The error that \<open>sendMessage\<close> throws on a response that is not ok.\<close>

definition http_error :: "js_runtime \<Rightarrow> nat \<Rightarrow> jsval option \<Rightarrow> js_error" where
  "http_error rt code body =
     (let errorData = (case body of None \<Rightarrow> JObj [] | Some v \<Rightarrow> v);
          httpErr = (\<lambda>m. \<lparr>name = ''Error'', status = Some code, message = to_string rt m\<rparr>)
      in case get_prop errorData ''detail'' of
           None \<Rightarrow> type_error rt ''detail''
         | Some detail \<Rightarrow>
             if typeof_object detail
             then (case get_prop detail ''message'' of
                     None \<Rightarrow> type_error rt ''message''
                   | Some m \<Rightarrow>
                       if truthy m then httpErr m
                       else (case get_prop detail ''error'' of
                               None \<Rightarrow> type_error rt ''error''
                             | Some e \<Rightarrow>
                                 if truthy e then httpErr e
                                 else httpErr (JStr (JSON_stringify rt detail))))
             else if truthy detail then httpErr detail
             else httpErr (JStr (''HTTP error! status: '' @ string_of_nat code)))"

text \<open>One line of the stream that starts with \<open>data: \<close>, applied to the messages.\<close>

definition append_chunk :: "int \<Rightarrow> string \<Rightarrow> chat_message list \<Rightarrow> chat_message list" where
  "append_chunk aiId chunk prev =
     map (\<lambda>msg. if msg_id msg = aiId then msg\<lparr>content := content msg @ chunk\<rparr> else msg) prev"

definition process_line ::
  "js_runtime \<Rightarrow> int \<Rightarrow> chat_message list \<Rightarrow> string \<Rightarrow> chat_message list" where
  "process_line rt aiId prev line =
     (let data = drop 6 line
      in if data = ''[DONE]'' then prev
         else (case JSON_parse rt data of
                 None \<Rightarrow> prev
               | Some parsed \<Rightarrow>
                   (case get_prop parsed ''chunk'' of
                      None \<Rightarrow> prev
                    | Some chunk \<Rightarrow>
                        if truthy chunk then append_chunk aiId (to_string rt chunk) prev
                        else prev)))"

text \<open>One chunk of the body, decoded to \<open>text\<close>.\<close>

definition data_lines :: "string \<Rightarrow> string list" where
  "data_lines text = filter (prefix ''data: '') (split_lines text)"

definition process_read ::
  "js_runtime \<Rightarrow> int \<Rightarrow> string \<Rightarrow> chat_message list \<Rightarrow> chat_message list" where
  "process_read rt aiId text prev = foldl (process_line rt aiId) prev (data_lines text)"

text \<open>The \<open>catch\<close> and \<open>finally\<close> branches.\<close>

definition catch_branch :: "js_error \<Rightarrow> int \<Rightarrow> chat_session \<Rightarrow> chat_session" where
  "catch_branch err aiId s =
     (if name err = ''AbortError'' then s
      else
        s\<lparr>error := Some
             (if status err = Some 429 then rate_limit_error
              else if message err \<noteq> [] then message err
              else send_failed_error),
          messages :=
            map (\<lambda>msg. if msg_id msg = aiId then msg\<lparr>content := fallback_content\<rparr> else msg)
              (messages s)\<rparr>)"

definition finally_branch :: "nat \<Rightarrow> chat_session \<Rightarrow> chat_session" where
  "finally_branch k s =
     s\<lparr>isLoading := False,
       isLoadingRef := False,
       inflight := take k (inflight s) @ drop (Suc k) (inflight s)\<rparr>"

text \<open>
  How the \<open>fetch\<close> of the \<open>k\<close>-th suspended call ends: it rejects, or it resolves with a
  status code and, when the code is not in 200 to 299, the value of \<open>response.json()\<close>
  (\<open>None\<close> when that rejects, which the hook replaces by the empty object). The two
  awaits of that branch are one event, since the hook changes nothing between them. A
  response with a code in 200 to 299 is taken to have a body to read.
\<close>

datatype fetch_result = FetchRejects js_error | FetchResponds nat "jsval option"

definition response_ok :: "nat \<Rightarrow> bool" where
  "response_ok code = (200 \<le> code \<and> code \<le> 299)"

definition fetch_settles :: "js_runtime \<Rightarrow> nat \<Rightarrow> fetch_result \<Rightarrow> chat_session \<Rightarrow> chat_session" where
  "fetch_settles rt k r s =
     (if k < length (inflight s) \<and> \<not> reading (inflight s ! k)
      then
        (let t = inflight s ! k
         in case r of
              FetchRejects err \<Rightarrow> finally_branch k (catch_branch err (aiMessageId t) s)
            | FetchResponds code body \<Rightarrow>
                if response_ok code
                then s\<lparr>inflight := (inflight s)[k := t\<lparr>reading := True\<rparr>]\<rparr>
                else finally_branch k
                       (catch_branch (http_error rt code body) (aiMessageId t) s))
      else s)"

text \<open>How one \<open>reader.read()\<close> of the \<open>k\<close>-th suspended call ends.\<close>

datatype read_result = ReadRejects js_error | ReadChunk string | ReadDone

definition read_settles :: "js_runtime \<Rightarrow> nat \<Rightarrow> read_result \<Rightarrow> chat_session \<Rightarrow> chat_session" where
  "read_settles rt k r s =
     (if k < length (inflight s) \<and> reading (inflight s ! k)
      then
        (let t = inflight s ! k
         in case r of
              ReadRejects err \<Rightarrow> finally_branch k (catch_branch err (aiMessageId t) s)
            | ReadChunk text \<Rightarrow>
                s\<lparr>messages := process_read rt (aiMessageId t) text (messages s)\<rparr>
            | ReadDone \<Rightarrow> finally_branch k s)
      else s)"

section \<open>Runs of the hook\<close>

text \<open>
  Everything that can happen to a mounted hook: a page load, a run of the save effect, a
  call of one of the handlers that the hook returns, a key press, and the settling of a
  promise that a suspended call awaits. An event carries what the environment chooses:
  the clock readings, the random identifier, the replies of the server. Events for a
  suspended call that does not exist, or that is not at that await, change nothing.
  React runs the save effect after a render in which one of its dependencies changed;
  here it may run at any time, which adds runs and takes none away.
\<close>

datatype event =
    Mount int
  | SaveEffect int
  | ContinueSession
  | StartFresh
  | Reset
  | KeyDown string
  | StartCall string string "string option" "string option" string
  | StartSettles nat start_outcome int
  | SendMessage string int int
  | FetchSettles nat fetch_result
  | ReadSettles nat read_result

fun step :: "js_runtime \<Rightarrow> event \<Rightarrow> chat_session \<Rightarrow> chat_session" where
  "step rt (Mount now) s = mount now s"
| "step rt (SaveEffect now) s = save_effect now s"
| "step rt ContinueSession s = handleContinueSession s"
| "step rt StartFresh s = handleStartFresh s"
| "step rt Reset s = handleReset s"
| "step rt (KeyDown key) s = handleKeyDown key s"
| "step rt (StartCall name' companyName jobInput turnstileToken uuid) s =
     handleStart_call name' companyName jobInput turnstileToken uuid s"
| "step rt (StartSettles k outcome now) s = handleStart_settle k outcome now s"
| "step rt (SendMessage messageText now1 now2) s = sendMessage messageText now1 now2 s"
| "step rt (FetchSettles k r) s = fetch_settles rt k r s"
| "step rt (ReadSettles k r) s = read_settles rt k r s"

definition run :: "js_runtime \<Rightarrow> event list \<Rightarrow> chat_session \<Rightarrow> chat_session" where
  "run rt evs s = foldl (\<lambda>s' ev. step rt ev s') s evs"

text \<open>The hook on its first load in a browser that has stored nothing and sent nothing.\<close>

definition first_load :: chat_session where
  "first_load = initial NoItem []"

section \<open>What the claims speak of\<close>

text \<open>No assistant message directly follows another one.\<close>

fun no_consecutive_assistant :: "chat_message list \<Rightarrow> bool" where
  "no_consecutive_assistant [] = True"
| "no_consecutive_assistant [m] = True"
| "no_consecutive_assistant (m # m' # ms) =
     (\<not> (role m = Assistant \<and> role m' = Assistant) \<and> no_consecutive_assistant (m' # ms))"

text \<open>The messages of the stored session and of the session offered for resuming.\<close>

definition stored_messages :: "storage_item \<Rightarrow> chat_message list" where
  "stored_messages item = (case item of Item p \<Rightarrow> saved_messages p | _ \<Rightarrow> [])"

definition pending_messages :: "saved_session option \<Rightarrow> chat_message list" where
  "pending_messages p = (case p of Some q \<Rightarrow> saved_messages q | None \<Rightarrow> [])"

text \<open>
  Three invariants of a run: the messages shown, stored and offered for resuming have
  no two assistant messages in a row; the busy flag is set exactly while the one
  suspended call of \<open>sendMessage\<close> is in flight; every session request sent carries at
  most one of the job text and the job URL.
\<close>

definition turns_ok :: "chat_session \<Rightarrow> bool" where
  "turns_ok s \<longleftrightarrow>
     no_consecutive_assistant (messages s) \<and>
     no_consecutive_assistant (stored_messages (localStorage s)) \<and>
     no_consecutive_assistant (pending_messages (pendingSession s))"

definition one_turn :: "chat_session \<Rightarrow> bool" where
  "one_turn s \<longleftrightarrow> length (inflight s) \<le> 1 \<and> (isLoadingRef s \<longleftrightarrow> inflight s \<noteq> [])"

definition requests_ok :: "chat_session \<Rightarrow> bool" where
  "requests_ok s \<longleftrightarrow>
     (\<forall>r. SessionRequest r \<in> set (network s) \<longrightarrow> job_posting r = None \<or> job_url r = None)"

text \<open>
  The text that one data line carries: the string that \<open>chunk\<close> stands for when the
  payload parses to a value with a truthy \<open>chunk\<close>, nothing for the end marker and for
  a payload that does not.
\<close>

definition chunk_payload :: "js_runtime \<Rightarrow> string \<Rightarrow> string option" where
  "chunk_payload rt line =
     (let data = drop 6 line
      in if data = ''[DONE]'' then None
         else (case JSON_parse rt data of
                 None \<Rightarrow> None
               | Some parsed \<Rightarrow>
                   (case get_prop parsed ''chunk'' of
                      None \<Rightarrow> None
                    | Some chunk \<Rightarrow> if truthy chunk then Some (to_string rt chunk) else None)))"

text \<open>
  The text that the hook appends to the assistant message for a body that arrives in
  the chunks \<open>reads\<close>: chunk by chunk, the payloads of the data lines of that chunk.
\<close>

definition delivered_text :: "js_runtime \<Rightarrow> string list \<Rightarrow> string" where
  "delivered_text rt reads =
     concat (map (\<lambda>t. concat (List.map_filter (chunk_payload rt) (data_lines t))) reads)"

text \<open>
  The answer that a stream carries, in the words of the specification: the payloads of
  the data events of the stream, in their order, put together. The stream is the text
  that the chunks of the body make up; how the transport cuts it into chunks is not
  part of it.
\<close>

definition stream_answer :: "js_runtime \<Rightarrow> string list \<Rightarrow> string" where
  "stream_answer rt reads =
     concat (List.map_filter (chunk_payload rt) (data_lines (concat reads)))"

text \<open>The events of a turn whose response is ok and whose body arrives in the chunks \<open>reads\<close>.\<close>

definition stream_events :: "nat \<Rightarrow> nat \<Rightarrow> string list \<Rightarrow> event list" where
  "stream_events k code reads =
     FetchSettles k (FetchResponds code None) # map (\<lambda>text. ReadSettles k (ReadChunk text)) reads"

text \<open>
  Modelled from the spec: the reply of the create-session endpoint, whose code is not
  among the sources. "Response carries a session identifier, a welcome message, and
  optionally a set of suggested starter prompts", and for the name Dana the "response
  includes a session id and a welcome message containing Dana".
\<close>

definition reply_conforms :: "string \<Rightarrow> start_outcome \<Rightarrow> bool" where
  "reply_conforms name' outcome =
     (case outcome of
        SessionOk data \<Rightarrow> session_id data \<noteq> [] \<and> sublist name' (welcome_message data)
      | _ \<Rightarrow> True)"

text \<open>A body of an error response on which \<open>sendMessage\<close> reads no property of \<open>null\<close>.\<close>

definition detail_not_null :: "jsval option \<Rightarrow> bool" where
  "detail_not_null body =
     (case body of
        None \<Rightarrow> True
      | Some v \<Rightarrow> get_prop v ''detail'' \<noteq> None \<and> get_prop v ''detail'' \<noteq> Some JNull)"

section \<open>Worked examples\<close>

text \<open>
  The server writes every fragment of an answer as the line \<open>data: {"chunk": "..."}\<close> and
  ends the stream with \<open>data: [DONE]\<close>. \<open>wire_parse\<close> is \<open>JSON.parse\<close> on such payloads:
  an object with the one key \<open>chunk\<close> and a string without quotes, backslashes and
  control characters. On every other argument it answers with the SyntaxError, as
  \<open>JSON.parse\<close> does on the fragments of such payloads and on the texts that are not
  JSON; the examples pass it nothing else. They reach neither \<open>JSON.stringify\<close> nor the
  conversion of a value that is not a string, and the TypeError message is the one of V8.
\<close>

definition wire_parse :: "string \<Rightarrow> jsval option" where
  \<open>wire_parse d =
     (let opening = ''{"chunk": "''; closing = ''"}'';
          inner = take (length d - length opening - length closing) (drop (length opening) d)
      in if d = opening @ inner @ closing
            \<and> list_all (\<lambda>c. c \<noteq> CHR 0x22 \<and> c \<noteq> CHR 0x5C \<and> 32 \<le> (of_char c :: nat)) inner
         then Some (JObj [(''chunk'', JStr inner)])
         else None)\<close>

definition wire_runtime :: js_runtime where
  "wire_runtime =
     \<lparr>JSON_parse = wire_parse,
      JSON_stringify = (\<lambda>v. []),
      ToString = (\<lambda>v. []),
      null_read_message = (\<lambda>key. ''Cannot read properties of null (reading '' @ [CHR 0x27] @ key @ [CHR 0x27] @ '')'')\<rparr>"

definition LF :: string where
  "LF = [CHR 0x0A]"

text \<open>
  Dana starts a chat while the server is unreachable and asks a question five seconds
  later. Or Dana starts with the URL of a job posting, and the server replies with a
  welcome of its own.
\<close>

definition dana_starts :: "event list" where
  "dana_starts =
     [StartCall ''Dana'' [] (Some []) None ''0b8f6a3e-5c1d-4e2a-9f7b-2d4c6e8a0b1c'',
      StartSettles 0 SessionThrew 1700000000000,
      SaveEffect 1700000000001]"

definition dana_asks :: "event list" where
  "dana_asks = dana_starts @ [SendMessage ''What are his strengths?'' 1700000005000 1700000005000]"

definition url_start :: event where
  "url_start = StartCall ''Dana'' ''Acme'' (Some ''HTTPS://jobs.example.com/42'') None
     ''0b8f6a3e-5c1d-4e2a-9f7b-2d4c6e8a0b1c''"

definition dana_welcome :: session_data where
  "dana_welcome =
     \<lparr>session_id = ''7d9c2b1a-3e4f-4a5b-8c6d-1e2f3a4b5c6d'',
      welcome_message = ''Hello Dana! Ask me anything about Rayhan.'',
      suggested_prompts = Some [''What are his strengths?'']\<rparr>"

text \<open>
  The answer Hello as the server writes it, in one data line or in two, each chunk of
  the body ending with its line; and the same text as the first, cut by the transport
  inside the data line.
\<close>

definition hello_body :: "string list" where
  \<open>hello_body = [''data: {"chunk": "Hello"}'' @ LF @ LF, ''data: [DONE]'' @ LF @ LF]\<close>

definition hel_lo_body :: "string list" where
  \<open>hel_lo_body = [''data: {"chunk": "Hel"}'' @ LF @ LF, ''data: {"chunk": "lo"}'' @ LF @ LF]\<close>

definition cut_body :: "string list" where
  \<open>cut_body = [''data: {"chunk": "Hel'', ''lo"}'' @ LF @ LF, ''data: [DONE]'' @ LF @ LF]\<close>

text \<open>
  The rejection that an aborted \<open>fetch\<close> or \<open>read\<close> ends with, the one that a lost
  connection ends a \<open>read\<close> with, two error responses, and the run in which Dana resets
  the chat after the first fragment.
\<close>

definition abort_error :: js_error where
  "abort_error = \<lparr>name = ''AbortError'', status = None, message = ''The user aborted a request.''\<rparr>"

definition network_error :: js_error where
  "network_error = \<lparr>name = ''TypeError'', status = None, message = ''network error''\<rparr>"

definition rate_limited :: fetch_result where
  "rate_limited = FetchResponds 429 (Some (JObj [(''detail'', JStr ''Rate limit exceeded'')]))"

definition server_failed :: fetch_result where
  "server_failed = FetchResponds 500 (Some (JObj [(''detail'', JStr ''Internal Server Error'')]))"

definition reset_mid_stream :: "event list" where
  \<open>reset_mid_stream =
     dana_asks @ stream_events 0 200 [''data: {"chunk": "Hel"}'' @ LF @ LF] @ [Reset]\<close>

text \<open>
  Dana asks 23 hours after the start, not five seconds, and loads the page again 25
  hours after the start. Before that page load the stored session is \<open>dana_saved\<close>, which
  the save effect wrote when the answer arrived.
\<close>

definition dana_returns :: "event list" where
  "dana_returns =
     dana_starts @
     [SendMessage ''What are his strengths?'' 1700082800000 1700082800000,
      SaveEffect 1700082800001] @
     stream_events 0 200 hello_body @
     [SaveEffect 1700082800950, ReadSettles 0 ReadDone,
      Mount 1700090000000]"

definition dana_saved :: saved_session where
  "dana_saved =
     \<lparr>saved_userName = ''Dana'', saved_company = [], saved_jobPosting = Some [],
      saved_sessionId = ''0b8f6a3e-5c1d-4e2a-9f7b-2d4c6e8a0b1c'',
      saved_suggestedPrompts = None,
      saved_messages =
        [\<lparr>msg_id = 1700000000000, role = Assistant,
          content = local_welcome_message ''Dana'' []\<rparr>,
         \<lparr>msg_id = 1700082800000, role = User, content = ''What are his strengths?''\<rparr>,
         \<lparr>msg_id = 1700082800001, role = Assistant, content = ''Hello''\<rparr>],
      savedAt = 1700082800950\<rparr>"

section \<open>The stream handler as a whole\<close>

lemma nca_append_turn:
  "no_consecutive_assistant ms \<Longrightarrow> role u = User \<Longrightarrow>
   no_consecutive_assistant (ms @ [u, a])"
  by (induction ms rule: no_consecutive_assistant.induct) auto

lemma nca_map:
  "(\<And>m. role (f m) = role m) \<Longrightarrow>
   no_consecutive_assistant (map f ms) = no_consecutive_assistant ms"
  by (induction ms rule: no_consecutive_assistant.induct) auto

lemma append_chunk_Nil [simp]: "append_chunk a [] ms = ms"
  by (induction ms) (auto simp: append_chunk_def)

lemma append_chunk_twice [simp]:
  "append_chunk a c' (append_chunk a c ms) = append_chunk a (c @ c') ms"
  by (induction ms) (auto simp: append_chunk_def)

lemma length_append_chunk [simp]: "length (append_chunk a c ms) = length ms"
  by (simp add: append_chunk_def)

lemma process_line_payload:
  "process_line rt a ms l =
     (case chunk_payload rt l of None \<Rightarrow> ms | Some c \<Rightarrow> append_chunk a c ms)"
  by (simp add: process_line_def chunk_payload_def Let_def split: option.splits)

lemma foldl_process_line:
  "foldl (process_line rt a) ms ls =
     append_chunk a (concat (List.map_filter (chunk_payload rt) ls)) ms"
proof (induction ls arbitrary: ms)
  case Nil
  show ?case by (simp add: List.map_filter_simps)
next
  case (Cons l ls)
  have "foldl (process_line rt a) ms (l # ls) =
          foldl (process_line rt a) (process_line rt a ms l) ls"
    by simp
  also have "\<dots> = append_chunk a (concat (List.map_filter (chunk_payload rt) ls))
                      (process_line rt a ms l)"
    by (rule Cons.IH)
  also have "\<dots> = append_chunk a (concat (List.map_filter (chunk_payload rt) (l # ls))) ms"
    by (cases "chunk_payload rt l") (simp_all add: process_line_payload List.map_filter_simps)
  finally show ?case .
qed

text \<open>One chunk of the body appends the payloads of its own data lines.\<close>

lemma process_read_payloads:
  "process_read rt a t ms =
     append_chunk a (concat (List.map_filter (chunk_payload rt) (data_lines t))) ms"
  by (simp add: process_read_def foldl_process_line)

lemma nca_append_chunk [simp]:
  "no_consecutive_assistant (append_chunk a c ms) = no_consecutive_assistant ms"
  unfolding append_chunk_def by (rule nca_map) simp

lemma nca_process_read [simp]:
  "no_consecutive_assistant (process_read rt a t ms) = no_consecutive_assistant ms"
  by (simp add: process_read_payloads)

lemma nca_catch_branch [simp]:
  "no_consecutive_assistant (messages (catch_branch err a s)) =
   no_consecutive_assistant (messages s)"
  unfolding catch_branch_def by (simp add: nca_map)

lemma finally_fields [simp]:
  "messages (finally_branch k s) = messages s"
  "localStorage (finally_branch k s) = localStorage s"
  "pendingSession (finally_branch k s) = pendingSession s"
  "error (finally_branch k s) = error s"
  "network (finally_branch k s) = network s"
  "controllers (finally_branch k s) = controllers s"
  "isLoading (finally_branch k s) = False"
  "isLoadingRef (finally_branch k s) = False"
  by (simp_all add: finally_branch_def)

lemma catch_fields [simp]:
  "localStorage (catch_branch err a s) = localStorage s"
  "pendingSession (catch_branch err a s) = pendingSession s"
  "network (catch_branch err a s) = network s"
  "inflight (catch_branch err a s) = inflight s"
  "isLoadingRef (catch_branch err a s) = isLoadingRef s"
  "isLoading (catch_branch err a s) = isLoading s"
  "controllers (catch_branch err a s) = controllers s"
  by (simp_all add: catch_branch_def)

section \<open>Invariants of a run\<close>

lemma run_Nil [simp]: "run rt [] s = s"
  by (simp add: run_def)

lemma run_Cons [simp]: "run rt (ev # evs) s = run rt evs (step rt ev s)"
  by (simp add: run_def)

lemma run_append [simp]: "run rt (evs @ evs') s = run rt evs' (run rt evs s)"
  by (simp add: run_def)

lemma turns_ok_step: "turns_ok s \<Longrightarrow> turns_ok (step rt ev s)"
proof (cases ev)
  case (Mount now)
  assume "turns_ok s"
  then show ?thesis using Mount
    by (auto simp: turns_ok_def mount_def restore_effect_def initial_def stored_messages_def
        pending_messages_def split: storage_item.splits)
next
  case (SaveEffect now)
  assume "turns_ok s"
  then show ?thesis using SaveEffect
    by (auto simp: turns_ok_def save_effect_def stored_messages_def)
next
  case ContinueSession
  assume "turns_ok s"
  then show ?thesis using ContinueSession
    by (auto simp: turns_ok_def handleContinueSession_def pending_messages_def
        split: option.splits)
next
  case StartFresh
  assume "turns_ok s"
  then show ?thesis using StartFresh
    by (auto simp: turns_ok_def handleStartFresh_def clearSession_def stored_messages_def
        pending_messages_def)
next
  case Reset
  assume "turns_ok s"
  then show ?thesis using Reset
    by (auto simp: turns_ok_def handleReset_def clearSession_def abort_stream_def
        stored_messages_def pending_messages_def split: option.splits)
next
  case (KeyDown key)
  assume "turns_ok s"
  then show ?thesis using KeyDown
    by (auto simp: turns_ok_def handleKeyDown_def handleStartFresh_def handleReset_def
        clearSession_def abort_stream_def stored_messages_def pending_messages_def
        split: option.splits)
next
  case (StartCall n c j t u)
  assume "turns_ok s"
  then show ?thesis using StartCall
    by (auto simp: turns_ok_def handleStart_call_def)
next
  case (StartSettles k outcome now)
  assume "turns_ok s"
  then show ?thesis using StartSettles
    by (auto simp: turns_ok_def handleStart_settle_def Let_def)
next
  case (SendMessage m n1 n2)
  assume "turns_ok s"
  then show ?thesis using SendMessage
    by (auto simp: turns_ok_def sendMessage_def nca_append_turn)
next
  case (FetchSettles k r)
  assume "turns_ok s"
  then show ?thesis using FetchSettles
    by (cases r) (auto simp: turns_ok_def fetch_settles_def Let_def)
next
  case (ReadSettles k r)
  assume "turns_ok s"
  then show ?thesis using ReadSettles
    by (cases r) (auto simp: turns_ok_def read_settles_def Let_def)
qed

lemma turns_ok_run: "turns_ok s \<Longrightarrow> turns_ok (run rt evs s)"
  by (induction evs arbitrary: s) (auto simp: turns_ok_step)

lemma turns_ok_first_load: "turns_ok first_load"
  by (simp add: turns_ok_def first_load_def initial_def stored_messages_def
      pending_messages_def)

lemma one_turn_step: "one_turn s \<Longrightarrow> one_turn (step rt ev s)"
proof (cases ev)
  case (FetchSettles k r)
  assume "one_turn s"
  then show ?thesis using FetchSettles
    by (cases r) (auto simp: one_turn_def fetch_settles_def finally_branch_def Let_def)
next
  case (ReadSettles k r)
  assume "one_turn s"
  then show ?thesis using ReadSettles
    by (cases r) (auto simp: one_turn_def read_settles_def finally_branch_def Let_def)
qed (auto simp: one_turn_def mount_def restore_effect_def initial_def save_effect_def
      handleContinueSession_def handleStartFresh_def clearSession_def handleReset_def
      abort_stream_def handleKeyDown_def handleStart_call_def handleStart_settle_def
      sendMessage_def Let_def split: storage_item.splits option.splits)

lemma one_turn_run: "one_turn s \<Longrightarrow> one_turn (run rt evs s)"
  by (induction evs arbitrary: s) (auto simp: one_turn_step)

lemma one_turn_first_load: "one_turn first_load"
  by (simp add: one_turn_def first_load_def initial_def)

lemma body_exclusive:
  "job_posting (session_request_body n c j t) = None \<or> job_url (session_request_body n c j t) = None"
  by (simp add: session_request_body_def)

lemma requests_ok_step: "requests_ok s \<Longrightarrow> requests_ok (step rt ev s)"
proof (cases ev)
  case (StartCall n c j t u)
  assume "requests_ok s"
  then show ?thesis using StartCall body_exclusive [of n c j t]
    by (auto simp: requests_ok_def handleStart_call_def)
next
  case (FetchSettles k r)
  assume "requests_ok s"
  then show ?thesis using FetchSettles
    by (cases r) (auto simp: requests_ok_def fetch_settles_def finally_branch_def Let_def)
next
  case (ReadSettles k r)
  assume "requests_ok s"
  then show ?thesis using ReadSettles
    by (cases r) (auto simp: requests_ok_def read_settles_def finally_branch_def Let_def)
qed (auto simp: requests_ok_def mount_def restore_effect_def initial_def save_effect_def
      handleContinueSession_def handleStartFresh_def clearSession_def handleReset_def
      abort_stream_def handleKeyDown_def handleStart_settle_def
      sendMessage_def Let_def split: storage_item.splits option.splits)

lemma requests_ok_run: "requests_ok s \<Longrightarrow> requests_ok (run rt evs s)"
  by (induction evs arbitrary: s) (auto simp: requests_ok_step)

lemma requests_ok_first_load: "requests_ok first_load"
  by (simp add: requests_ok_def first_load_def initial_def)

section \<open>A whole turn\<close>

lemma run_reads:
  "k < length (inflight s) \<Longrightarrow> reading (inflight s ! k) \<Longrightarrow>
   run rt (map (\<lambda>t. ReadSettles k (ReadChunk t)) reads) s =
     s\<lparr>messages := append_chunk (aiMessageId (inflight s ! k)) (delivered_text rt reads)
                      (messages s)\<rparr>"
proof (induction reads arbitrary: s)
  case Nil
  show ?case by (simp add: delivered_text_def)
next
  case (Cons t reads)
  let ?s = "s\<lparr>messages := process_read rt (aiMessageId (inflight s ! k)) t (messages s)\<rparr>"
  have one: "step rt (ReadSettles k (ReadChunk t)) s = ?s"
    using Cons.prems by (simp add: read_settles_def Let_def)
  have "k < length (inflight ?s)" and "reading (inflight ?s ! k)"
    using Cons.prems by simp_all
  from Cons.IH [OF this] one show ?case
    by (simp add: process_read_payloads delivered_text_def)
qed

lemma run_turn:
  assumes "trim m \<noteq> []" and "\<not> isLoadingRef s" and "response_ok code"
  shows "run rt (SendMessage m now1 now2 # stream_events (length (inflight s)) code reads) s =
     (sendMessage m now1 now2 s)
       \<lparr>inflight := inflight s @
          [\<lparr>aiMessageId = now2 + 1, signal = length (controllers s), reading = True\<rparr>],
        messages := append_chunk (now2 + 1) (delivered_text rt reads)
          (messages s @ [\<lparr>msg_id = now1, role = User, content = m\<rparr>,
                         \<lparr>msg_id = now2 + 1, role = Assistant, content = []\<rparr>])\<rparr>"
proof -
  let ?k = "length (inflight s)"
  let ?s1 = "sendMessage m now1 now2 s"
  let ?s2 = "?s1\<lparr>inflight := inflight s @
          [\<lparr>aiMessageId = now2 + 1, signal = length (controllers s), reading = True\<rparr>]\<rparr>"
  have s1: "inflight ?s1 = inflight s @
      [\<lparr>aiMessageId = now2 + 1, signal = length (controllers s), reading = False\<rparr>]"
      "messages ?s1 = messages s @ [\<lparr>msg_id = now1, role = User, content = m\<rparr>,
                         \<lparr>msg_id = now2 + 1, role = Assistant, content = []\<rparr>]"
    using assms by (simp_all add: sendMessage_def)
  have fetch: "step rt (FetchSettles ?k (FetchResponds code None)) ?s1 = ?s2"
    using assms s1 by (simp add: fetch_settles_def Let_def)
  have "?k < length (inflight ?s2)" and "reading (inflight ?s2 ! ?k)"
    by simp_all
  from run_reads [OF this, of rt reads] fetch s1 show ?thesis
    by (simp add: stream_events_def)
qed

lemma last_append_chunk:
  "ms \<noteq> [] \<Longrightarrow> msg_id (last ms) = a \<Longrightarrow>
   last (append_chunk a c ms) = (last ms)\<lparr>content := content (last ms) @ c\<rparr>"
  by (simp add: append_chunk_def last_map)

section \<open>The error of a response that is not ok\<close>

lemma http_error_not_null:
  assumes "detail_not_null body"
  shows "name (http_error rt code body) = ''Error''"
    and "status (http_error rt code body) = Some code"
proof -
  obtain errorData where ed: "errorData = (case body of None \<Rightarrow> JObj [] | Some v \<Rightarrow> v)"
    by simp
  from assms obtain detail where d: "get_prop errorData ''detail'' = Some detail" "detail \<noteq> JNull"
    by (cases body) (auto simp: detail_not_null_def ed)
  have u: "detail \<noteq> JUndefined \<or> \<not> typeof_object detail"
    by (cases detail) simp_all
  show "name (http_error rt code body) = ''Error''"
    using d u unfolding http_error_def Let_def ed [symmetric]
    by (cases detail) (simp_all split: option.splits)
  show "status (http_error rt code body) = Some code"
    using d u unfolding http_error_def Let_def ed [symmetric]
    by (cases detail) (simp_all split: option.splits)
qed

lemma http_error_no_body:
  "message (http_error rt code None) = ''HTTP error! status: '' @ string_of_nat code"
  by (simp add: http_error_def to_string_def)

lemma http_error_text_detail:
  "d \<noteq> [] \<Longrightarrow> message (http_error rt code (Some (JObj [(''detail'', JStr d)]))) = d"
  by (simp add: http_error_def to_string_def)

section \<open>Chunks of the body that end with a line\<close>

text \<open>
  The hook reads the data lines of every chunk of the body on its own. When every chunk
  ends with a line feed, no line is cut, and the text shown for a completed turn is the
  answer that the stream carries.
\<close>

lemma split_lines_not_Nil [simp]: "split_lines t \<noteq> []"
  by (induction t) (auto split: list.splits)

lemma split_lines_append_LF:
  "split_lines (a @ CHR 0x0A # b) = split_lines a @ split_lines b"
  by (induction a) (auto split: list.splits)

lemma data_lines_Nil [simp]: "data_lines [] = []"
  by (simp add: data_lines_def)

lemma data_lines_append_LF:
  "data_lines (a @ CHR 0x0A # b) = data_lines a @ data_lines b"
  by (simp add: data_lines_def split_lines_append_LF)

lemma data_lines_whole_line:
  assumes "t \<noteq> []" and "last t = CHR 0x0A"
  shows "data_lines (t @ b) = data_lines t @ data_lines b"
proof -
  from assms have t: "t = butlast t @ [CHR 0x0A]"
    by (metis append_butlast_last_id)
  have "data_lines (t @ b) = data_lines (butlast t @ CHR 0x0A # b)"
    by (subst t) simp
  also have "\<dots> = data_lines (butlast t) @ data_lines b"
    by (rule data_lines_append_LF)
  also have "data_lines (butlast t) = data_lines (butlast t @ CHR 0x0A # [])"
    by (simp add: data_lines_append_LF)
  also have "butlast t @ CHR 0x0A # [] = t"
    using t by simp
  finally show ?thesis .
qed

lemma map_filter_append:
  "List.map_filter f (xs @ ys) = List.map_filter f xs @ List.map_filter f ys"
  by (simp add: List.map_filter_def)

lemma delivered_text_aligned:
  "\<forall>t \<in> set reads. t \<noteq> [] \<and> last t = CHR 0x0A \<Longrightarrow>
   delivered_text rt reads = stream_answer rt reads"
proof (induction reads)
  case Nil
  show ?case by (simp add: delivered_text_def stream_answer_def List.map_filter_simps)
next
  case (Cons t reads)
  then have t: "t \<noteq> []" "last t = CHR 0x0A"
    and rest: "delivered_text rt reads = stream_answer rt reads"
    by simp_all
  have "stream_answer rt (t # reads) =
      concat (List.map_filter (chunk_payload rt) (data_lines t)) @ stream_answer rt reads"
    by (simp add: stream_answer_def data_lines_whole_line [OF t] map_filter_append)
  with rest show ?case
    by (simp add: delivered_text_def)
qed

lemma aligned_stream_is_complete:
  assumes "trim m \<noteq> []" and "\<not> isLoadingRef s" and "response_ok code"
    and "\<forall>t \<in> set reads. t \<noteq> [] \<and> last t = CHR 0x0A"
  shows "last (messages (run rt (SendMessage m now1 now2
            # stream_events (length (inflight s)) code reads
            @ [ReadSettles (length (inflight s)) ReadDone]) s)) =
         \<lparr>msg_id = now2 + 1, role = Assistant, content = stream_answer rt reads\<rparr>"
proof -
  let ?k = "length (inflight s)"
  define s3 where "s3 = run rt (SendMessage m now1 now2 # stream_events ?k code reads) s"
  have s3: "s3 = (sendMessage m now1 now2 s)
       \<lparr>inflight := inflight s @
          [\<lparr>aiMessageId = now2 + 1, signal = length (controllers s), reading = True\<rparr>],
        messages := append_chunk (now2 + 1) (delivered_text rt reads)
          (messages s @ [\<lparr>msg_id = now1, role = User, content = m\<rparr>,
                         \<lparr>msg_id = now2 + 1, role = Assistant, content = []\<rparr>])\<rparr>"
    unfolding s3_def by (rule run_turn [OF assms(1-3)])
  have "run rt (SendMessage m now1 now2 # stream_events ?k code reads
                  @ [ReadSettles ?k ReadDone]) s = step rt (ReadSettles ?k ReadDone) s3"
    unfolding s3_def by simp
  also have "\<dots> = finally_branch ?k s3"
    by (simp add: s3 read_settles_def)
  finally show ?thesis
    by (simp add: s3 last_append_chunk delivered_text_aligned [OF assms(4)])
qed

section \<open>The claims\<close>

text \<open>
  Claim C1, as the hook has it. The stored session has one timestamp, \<open>savedAt\<close>, which
  every run of the save effect sets to the time of that run. The lookup on mount
  removes the session, and offers nothing to resume, once more than 24 hours have
  passed since the last save; until then the session stays stored and is offered when
  it has a user name and messages.
\<close>

theorem expiry_counts_from_last_save:
  assumes "localStorage s = Item p" and "savedAt p \<noteq> 0"
  shows "(now - savedAt p > SESSION_TTL_MS \<longrightarrow>
            localStorage (step rt (Mount now) s) = NoItem \<and>
            \<not> showResumeModal (step rt (Mount now) s) \<and>
            pendingSession (step rt (Mount now) s) = None) \<and>
         (now - savedAt p \<le> SESSION_TTL_MS \<longrightarrow>
            localStorage (step rt (Mount now) s) = Item p \<and>
            (saved_userName p \<noteq> [] \<and> saved_messages p \<noteq> [] \<longrightarrow>
               showResumeModal (step rt (Mount now) s) \<and>
               pendingSession (step rt (Mount now) s) = Some p)) \<and>
         (hasStarted s' \<and> messages s' \<noteq> [] \<longrightarrow>
            (\<exists>q. localStorage (step rt (SaveEffect saved) s') = Item q \<and> savedAt q = saved \<and>
                 saved_messages q = messages s'))"
  using assms
  by (auto simp: mount_def restore_effect_def initial_def save_effect_def)

theorem expiry_counts_from_last_save_witness:
  "localStorage (run wire_runtime (butlast dana_returns) first_load) = Item dana_saved \<and>
   savedAt dana_saved \<noteq> 0 \<and>
   1700169200951 - savedAt dana_saved > SESSION_TTL_MS \<and>
   localStorage (step wire_runtime (Mount 1700169200951)
       (run wire_runtime (butlast dana_returns) first_load)) = NoItem \<and>
   \<not> showResumeModal (step wire_runtime (Mount 1700169200951)
       (run wire_runtime (butlast dana_returns) first_load)) \<and>
   1700169200950 - savedAt dana_saved \<le> SESSION_TTL_MS \<and>
   showResumeModal (step wire_runtime (Mount 1700169200950)
       (run wire_runtime (butlast dana_returns) first_load)) \<and>
   pendingSession (step wire_runtime (Mount 1700169200950)
       (run wire_runtime (butlast dana_returns) first_load)) = Some dana_saved"
proof -
  have stored: "localStorage (run wire_runtime (butlast dana_returns) first_load) = Item dana_saved"
    by code_simp
  have nz: "savedAt dana_saved \<noteq> 0"
    by (simp add: dana_saved_def)
  have late: "1700169200951 - savedAt dana_saved > SESSION_TTL_MS"
    and early: "1700169200950 - savedAt dana_saved \<le> SESSION_TTL_MS"
    and shown: "saved_userName dana_saved \<noteq> [] \<and> saved_messages dana_saved \<noteq> []"
    by (simp_all add: dana_saved_def SESSION_TTL_MS_def)
  from expiry_counts_from_last_save [OF stored nz, of 1700169200951 wire_runtime]
    expiry_counts_from_last_save [OF stored nz, of 1700169200950 wire_runtime]
    stored nz late early shown
  show ?thesis
    by blast
qed

text \<open>
  Claim C1 as stated fails: a session created at 1700000000000, in which a message is
  sent 23 hours later, is offered for resuming 25 hours after its creation.
\<close>

theorem resumed_25_hours_after_creation:
  "1700090000000 - 1700000000000 > SESSION_TTL_MS \<and>
   msg_id (hd (messages (run wire_runtime (take 2 dana_starts) first_load))) = 1700000000000 \<and>
   msg_id (hd (stored_messages (localStorage (run wire_runtime dana_returns first_load))))
     = 1700000000000 \<and>
   localStorage (run wire_runtime dana_returns first_load) \<noteq> NoItem \<and>
   showResumeModal (run wire_runtime dana_returns first_load) \<and>
   pendingSession (run wire_runtime dana_returns first_load) \<noteq> None"
  by code_simp

text \<open>
  Claim C2, as the hook has it. When a turn fails in the middle of its stream with an
  error other than an abort, the assistant message of the turn, the last of the
  sequence, ends with the fixed fallback text as its whole content: the fragments shown
  so far are replaced, not kept. The error state holds a message that is not empty (the
  rate-limit text for status 429, else the message of the error, else the generic
  text), where a turn that completes leaves it \<open>null\<close>, and both loading flags are
  cleared.
\<close>

theorem failed_turn_shows_fallback:
  assumes "trim m \<noteq> []" and "\<not> isLoadingRef s" and "response_ok code"
    and "name err \<noteq> ''AbortError''"
  shows "let k = length (inflight s);
             s' = run rt (SendMessage m now1 now2 # stream_events k code reads
                            @ [ReadSettles k (ReadRejects err)]) s
         in length (messages s') = length (messages s) + 2 \<and>
            last (messages s') =
              \<lparr>msg_id = now2 + 1, role = Assistant, content = fallback_content\<rparr> \<and>
            error s' = Some (if status err = Some 429 then rate_limit_error
                             else if message err \<noteq> [] then message err
                             else send_failed_error) \<and>
            error s' \<noteq> None \<and> error s' \<noteq> Some [] \<and>
            \<not> isLoading s' \<and> \<not> isLoadingRef s' \<and>
            error (run rt (SendMessage m now1 now2 # stream_events k code reads
                            @ [ReadSettles k ReadDone]) s) = None"
proof -
  let ?k = "length (inflight s)"
  let ?ms = "messages s @ [\<lparr>msg_id = now1, role = User, content = m\<rparr>,
                         \<lparr>msg_id = now2 + 1, role = Assistant, content = []\<rparr>]"
  define s3 where "s3 = run rt (SendMessage m now1 now2 # stream_events ?k code reads) s"
  define s4 where "s4 = step rt (ReadSettles ?k (ReadRejects err)) s3"
  have s3: "s3 = (sendMessage m now1 now2 s)
       \<lparr>inflight := inflight s @
          [\<lparr>aiMessageId = now2 + 1, signal = length (controllers s), reading = True\<rparr>],
        messages := append_chunk (now2 + 1) (delivered_text rt reads) ?ms\<rparr>"
    unfolding s3_def by (rule run_turn [OF assms(1-3)])
  have failed: "run rt (SendMessage m now1 now2 # stream_events ?k code reads
                            @ [ReadSettles ?k (ReadRejects err)]) s = s4"
    unfolding s4_def s3_def by simp
  have completed: "run rt (SendMessage m now1 now2 # stream_events ?k code reads
                            @ [ReadSettles ?k ReadDone]) s = step rt (ReadSettles ?k ReadDone) s3"
    unfolding s3_def by simp
  have shown: "last (append_chunk (now2 + 1) (delivered_text rt reads) ?ms) =
      \<lparr>msg_id = now2 + 1, role = Assistant, content = delivered_text rt reads\<rparr>"
    by (simp add: last_append_chunk)
  have turn: "?k < length (inflight s3)" "reading (inflight s3 ! ?k)"
      "aiMessageId (inflight s3 ! ?k) = now2 + 1"
    by (simp_all add: s3)
  have msgs: "messages s3 = append_chunk (now2 + 1) (delivered_text rt reads) ?ms"
    by (simp add: s3)
  have err0: "error s3 = None"
    using assms(1,2) by (simp add: s3 sendMessage_def)
  have s4: "s4 = finally_branch ?k (catch_branch err (now2 + 1) s3)"
    unfolding s4_def using turn by (simp add: read_settles_def Let_def)
  have m4: "messages s4 =
      map (\<lambda>msg. if msg_id msg = now2 + 1 then msg\<lparr>content := fallback_content\<rparr> else msg)
        (append_chunk (now2 + 1) (delivered_text rt reads) ?ms)"
    using assms(4) by (simp add: s4 catch_branch_def msgs)
  have len: "length (messages s4) = length (messages s) + 2"
    by (simp add: m4)
  have "append_chunk (now2 + 1) (delivered_text rt reads) ?ms \<noteq> []"
    by (simp add: append_chunk_def)
  then have lst: "last (messages s4) =
      \<lparr>msg_id = now2 + 1, role = Assistant, content = fallback_content\<rparr>"
    by (simp add: m4 last_map shown)
  have e4: "error s4 = Some (if status err = Some 429 then rate_limit_error
                             else if message err \<noteq> [] then message err
                             else send_failed_error)"
    using assms(4) by (simp add: s4 catch_branch_def)
  have nonempty: "error s4 \<noteq> None" "error s4 \<noteq> Some []"
    by (simp_all add: e4 rate_limit_error_def send_failed_error_def)
  have flags: "\<not> isLoading s4" "\<not> isLoadingRef s4"
    by (simp_all add: s4)
  have "step rt (ReadSettles ?k ReadDone) s3 = finally_branch ?k s3"
    using turn by (simp add: read_settles_def Let_def)
  then have ok: "error (step rt (ReadSettles ?k ReadDone) s3) = None"
    by (simp add: err0)
  from len lst e4 nonempty flags ok show ?thesis
    unfolding Let_def failed completed by blast
qed

theorem failed_turn_shows_fallback_witness:
  "trim ''What are his strengths?'' \<noteq> [] \<and>
   \<not> isLoadingRef (run wire_runtime dana_starts first_load) \<and>
   response_ok 200 \<and> name network_error \<noteq> ''AbortError'' \<and>
   last (messages (run wire_runtime
       (SendMessage ''What are his strengths?'' 1700000005000 1700000005000
          # stream_events 0 200 hel_lo_body @ [ReadSettles 0 (ReadRejects network_error)])
       (run wire_runtime dana_starts first_load))) =
     \<lparr>msg_id = 1700000005001, role = Assistant, content = fallback_content\<rparr> \<and>
   error (run wire_runtime
       (SendMessage ''What are his strengths?'' 1700000005000 1700000005000
          # stream_events 0 200 hel_lo_body @ [ReadSettles 0 (ReadRejects network_error)])
       (run wire_runtime dana_starts first_load)) = Some ''network error''"
proof -
  have a: "trim ''What are his strengths?'' \<noteq> []" by code_simp
  have b: "\<not> isLoadingRef (run wire_runtime dana_starts first_load)" by code_simp
  have c: "response_ok 200" by (simp add: response_ok_def)
  have d: "name network_error \<noteq> ''AbortError''" by (simp add: network_error_def)
  have k: "length (inflight (run wire_runtime dana_starts first_load)) = 0" by code_simp
  from failed_turn_shows_fallback [OF a b c d, of wire_runtime 1700000005000 1700000005000 hel_lo_body]
    a b c d k
  show ?thesis
    by (simp add: Let_def network_error_def del: run_Cons run_append step.simps)
qed

text \<open>
  Claim C2 as stated fails: after the fragments Hel and lo the message shows Hello, and
  after the failure it shows the fallback text alone.
\<close>

theorem partial_answer_is_replaced:
  "content (last (messages (run wire_runtime
       (dana_asks @ stream_events 0 200 hel_lo_body) first_load))) = ''Hello'' \<and>
   content (last (messages (run wire_runtime
       (dana_asks @ stream_events 0 200 hel_lo_body @ [ReadSettles 0 (ReadRejects network_error)])
       first_load))) = fallback_content \<and>
   fallback_content \<noteq> ''Hello'' @ fallback_content"
  by code_simp

text \<open>
  Claim C3, at an input where the hook misses it. The stream carries one data event with
  the fragment Hello. When the first chunk of the body ends inside that line, the turn
  completes without an error and the assistant message stays empty; when the same text
  arrives cut at the ends of lines, the message is Hello.
\<close>

theorem event_cut_by_the_transport_is_lost:
  "concat cut_body = concat hello_body \<and>
   stream_answer wire_runtime cut_body = ''Hello'' \<and>
   content (last (messages (run wire_runtime
       (dana_asks @ stream_events 0 200 hello_body @ [ReadSettles 0 ReadDone]) first_load)))
     = ''Hello'' \<and>
   content (last (messages (run wire_runtime
       (dana_asks @ stream_events 0 200 cut_body @ [ReadSettles 0 ReadDone]) first_load)))
     = [] \<and>
   error (run wire_runtime
       (dana_asks @ stream_events 0 200 cut_body @ [ReadSettles 0 ReadDone]) first_load) = None"
  by code_simp

text \<open>
  Claim C4. Within one session a new turn never begins while the stream of the previous
  one is in flight. A call of \<open>sendMessage\<close> made while the busy flag \<open>isLoadingRef\<close> is set
  returns the state as it is: no message is appended and no request is sent. In every
  state that a run reaches from the first load at most one call is in flight, and the
  flag is set exactly when one is. An event that clears the flag is a page load, which
  leaves the calls of the old page behind, or ends a call in flight.
\<close>

theorem one_response_at_a_time:
  "(isLoadingRef s \<longrightarrow> step rt (SendMessage m now1 now2) s = s) \<and>
   length (inflight (run rt evs first_load)) \<le> 1 \<and>
   (isLoadingRef (run rt evs first_load) \<longleftrightarrow> inflight (run rt evs first_load) \<noteq> []) \<and>
   (isLoadingRef s' \<and> \<not> isLoadingRef (step rt ev s') \<longrightarrow>
      (\<exists>now. ev = Mount now) \<or> length (inflight (step rt ev s')) < length (inflight s'))"
proof -
  have guard: "isLoadingRef s \<longrightarrow> step rt (SendMessage m now1 now2) s = s"
    by (simp add: sendMessage_def)
  have "one_turn (run rt evs first_load)"
    by (rule one_turn_run [OF one_turn_first_load])
  then have inv: "length (inflight (run rt evs first_load)) \<le> 1"
      "isLoadingRef (run rt evs first_load) \<longleftrightarrow> inflight (run rt evs first_load) \<noteq> []"
    by (simp_all add: one_turn_def)
  have cleared: "isLoadingRef s' \<and> \<not> isLoadingRef (step rt ev s') \<longrightarrow>
      (\<exists>now. ev = Mount now) \<or> length (inflight (step rt ev s')) < length (inflight s')"
  proof (cases ev)
    case (FetchSettles k r)
    then show ?thesis
      by (cases r) (auto simp: fetch_settles_def finally_branch_def Let_def)
  next
    case (ReadSettles k r)
    then show ?thesis
      by (cases r) (auto simp: read_settles_def finally_branch_def Let_def)
  qed (auto simp: save_effect_def handleContinueSession_def handleStartFresh_def
        clearSession_def handleReset_def abort_stream_def handleKeyDown_def
        handleStart_call_def handleStart_settle_def sendMessage_def Let_def
        split: option.splits)
  from guard inv cleared show ?thesis by blast
qed

theorem one_response_at_a_time_witness:
  "isLoadingRef (run wire_runtime dana_asks first_load) \<and>
   step wire_runtime (SendMessage ''And his projects?'' 1700000005200 1700000005200)
       (run wire_runtime dana_asks first_load) = run wire_runtime dana_asks first_load \<and>
   length (inflight (run wire_runtime dana_asks first_load)) \<le> 1 \<and>
   inflight (run wire_runtime dana_asks first_load) \<noteq> [] \<and>
   \<not> isLoadingRef (step wire_runtime (ReadSettles 0 ReadDone)
        (run wire_runtime (dana_asks @ stream_events 0 200 hello_body) first_load)) \<and>
   length (inflight (step wire_runtime (ReadSettles 0 ReadDone)
        (run wire_runtime (dana_asks @ stream_events 0 200 hello_body) first_load)))
     < length (inflight (run wire_runtime (dana_asks @ stream_events 0 200 hello_body) first_load))"
proof -
  have busy: "isLoadingRef (run wire_runtime dana_asks first_load)"
    by code_simp
  have still: "isLoadingRef (run wire_runtime (dana_asks @ stream_events 0 200 hello_body) first_load)"
    by code_simp
  have ended: "\<not> isLoadingRef (step wire_runtime (ReadSettles 0 ReadDone)
        (run wire_runtime (dana_asks @ stream_events 0 200 hello_body) first_load))"
    by code_simp
  from busy still ended
    one_response_at_a_time [of "run wire_runtime dana_asks first_load" wire_runtime
      "''And his projects?''" 1700000005200 1700000005200 dana_asks
      "run wire_runtime (dana_asks @ stream_events 0 200 hello_body) first_load"
      "ReadSettles 0 ReadDone"]
  show ?thesis
    by (simp del: run_Cons run_append step.simps)
qed

text \<open>
  Claim C5. In every state that a run reaches from the first load, whatever the events
  and their order, the message sequence has no two assistant messages in a row. The
  welcome that \<open>handleStart\<close> puts in place is a single assistant message, and a call of
  \<open>sendMessage\<close> that is admitted appends exactly one user message directly followed by
  one assistant message.
\<close>

theorem no_two_assistant_turns_in_a_row:
  "no_consecutive_assistant (messages (run rt evs first_load)) \<and>
   (k < length (starting s) \<longrightarrow>
      messages (step rt (StartSettles k outcome now) s) =
        [\<lparr>msg_id = now, role = Assistant,
          content = (case outcome of SessionOk data \<Rightarrow> welcome_message data
                     | _ \<Rightarrow> local_welcome (starting s ! k))\<rparr>]) \<and>
   (trim m \<noteq> [] \<and> \<not> isLoadingRef s' \<longrightarrow>
      messages (step rt (SendMessage m now1 now2) s') =
        messages s' @ [\<lparr>msg_id = now1, role = User, content = m\<rparr>,
                      \<lparr>msg_id = now2 + 1, role = Assistant, content = []\<rparr>])"
proof -
  have "turns_ok (run rt evs first_load)"
    by (rule turns_ok_run [OF turns_ok_first_load])
  then have "no_consecutive_assistant (messages (run rt evs first_load))"
    by (simp add: turns_ok_def)
  moreover have "k < length (starting s) \<longrightarrow>
      messages (step rt (StartSettles k outcome now) s) =
        [\<lparr>msg_id = now, role = Assistant,
          content = (case outcome of SessionOk data \<Rightarrow> welcome_message data
                     | _ \<Rightarrow> local_welcome (starting s ! k))\<rparr>]"
    by (cases outcome) (simp_all add: handleStart_settle_def Let_def)
  moreover have "trim m \<noteq> [] \<and> \<not> isLoadingRef s' \<longrightarrow>
      messages (step rt (SendMessage m now1 now2) s') =
        messages s' @ [\<lparr>msg_id = now1, role = User, content = m\<rparr>,
                      \<lparr>msg_id = now2 + 1, role = Assistant, content = []\<rparr>]"
    by (simp add: sendMessage_def)
  ultimately show ?thesis by blast
qed

theorem no_two_assistant_turns_in_a_row_witness:
  "0 < length (starting (run wire_runtime [hd dana_starts] first_load)) \<and>
   trim ''What are his strengths?'' \<noteq> [] \<and>
   \<not> isLoadingRef (run wire_runtime dana_starts first_load) \<and>
   no_consecutive_assistant
     (messages (run wire_runtime
        (dana_asks @ stream_events 0 200 hello_body @ [ReadSettles 0 ReadDone]) first_load)) \<and>
   messages (step wire_runtime (StartSettles 0 SessionThrew 1700000000000)
       (run wire_runtime [hd dana_starts] first_load)) =
     [\<lparr>msg_id = 1700000000000, role = Assistant,
       content = local_welcome (starting (run wire_runtime [hd dana_starts] first_load) ! 0)\<rparr>] \<and>
   messages (step wire_runtime (SendMessage ''What are his strengths?'' 1700000005000 1700000005000)
       (run wire_runtime dana_starts first_load)) =
     messages (run wire_runtime dana_starts first_load) @
       [\<lparr>msg_id = 1700000005000, role = User, content = ''What are his strengths?''\<rparr>,
        \<lparr>msg_id = 1700000005000 + 1, role = Assistant, content = []\<rparr>]"
proof -
  have pending: "0 < length (starting (run wire_runtime [hd dana_starts] first_load))"
    by code_simp
  have admitted: "trim ''What are his strengths?'' \<noteq> [] \<and>
      \<not> isLoadingRef (run wire_runtime dana_starts first_load)"
    by code_simp
  from pending admitted
    no_two_assistant_turns_in_a_row [of wire_runtime
      "dana_asks @ stream_events 0 200 hello_body @ [ReadSettles 0 ReadDone]"
      0 "run wire_runtime [hd dana_starts] first_load" SessionThrew 1700000000000
      "''What are his strengths?''" "run wire_runtime dana_starts first_load"
      1700000005000 1700000005000]
  show ?thesis
    by (simp del: run_Cons run_append step.simps)
qed

text \<open>
  Claim C6. A turn that ends with the AbortError of its aborted controller changes
  neither the messages nor the error state nor the log of requests: no fallback text,
  no error, no retry. It only clears the loading flags and is no longer in flight.
  \<open>handleReset\<close> is what aborts: it sets the flag of the controller of the turn in flight
  and sends nothing.
\<close>

theorem abort_is_not_an_error:
  assumes "name err = ''AbortError''" and "k < length (inflight s)"
  shows "(let s' = step rt (if reading (inflight s ! k) then ReadSettles k (ReadRejects err)
                          else FetchSettles k (FetchRejects err)) s
          in messages s' = messages s \<and> error s' = error s \<and> network s' = network s \<and>
             \<not> isLoading s' \<and> \<not> isLoadingRef s' \<and>
             inflight s' = take k (inflight s) @ drop (Suc k) (inflight s)) \<and>
         (streamAbortRef s = Some (signal (inflight s ! k)) \<and>
          signal (inflight s ! k) < length (controllers s) \<longrightarrow>
            controllers (step rt Reset s) ! signal (inflight s ! k) \<and>
            inflight (step rt Reset s) = inflight s \<and>
            network (step rt Reset s) = network s)"
  using assms
  by (auto simp: read_settles_def fetch_settles_def catch_branch_def finally_branch_def Let_def
      handleReset_def clearSession_def abort_stream_def)

theorem abort_is_not_an_error_witness:
  "name abort_error = ''AbortError'' \<and>
   0 < length (inflight (run wire_runtime reset_mid_stream first_load)) \<and>
   reading (inflight (run wire_runtime reset_mid_stream first_load) ! 0) \<and>
   messages (step wire_runtime (ReadSettles 0 (ReadRejects abort_error))
       (run wire_runtime reset_mid_stream first_load)) = [] \<and>
   error (step wire_runtime (ReadSettles 0 (ReadRejects abort_error))
       (run wire_runtime reset_mid_stream first_load)) = None \<and>
   network (step wire_runtime (ReadSettles 0 (ReadRejects abort_error))
       (run wire_runtime reset_mid_stream first_load)) =
     network (run wire_runtime dana_asks first_load) \<and>
   inflight (step wire_runtime (ReadSettles 0 (ReadRejects abort_error))
       (run wire_runtime reset_mid_stream first_load)) = []"
proof -
  have a: "name abort_error = ''AbortError''" by (simp add: abort_error_def)
  have b: "0 < length (inflight (run wire_runtime reset_mid_stream first_load))" by code_simp
  have c: "reading (inflight (run wire_runtime reset_mid_stream first_load) ! 0)" by code_simp
  have d: "messages (run wire_runtime reset_mid_stream first_load) = []" by code_simp
  have e: "error (run wire_runtime reset_mid_stream first_load) = None" by code_simp
  have f: "network (run wire_runtime reset_mid_stream first_load) =
      network (run wire_runtime dana_asks first_load)" by code_simp
  have g: "length (inflight (run wire_runtime reset_mid_stream first_load)) = 1" by code_simp
  from abort_is_not_an_error [OF a b, of wire_runtime] a b c d e f g
  show ?thesis
    by (simp add: Let_def del: step.simps)
qed

text \<open>
  Claim C7, as the hook has it. For a response that is not ok and whose body has a
  \<open>detail\<close> other than \<open>null\<close>: with status 429 the error state is the rate-limit text;
  with any other status it is the message that the response carries (the text of
  \<open>detail\<close>, or \<open>HTTP error! status: N\<close> when there is none), or the generic text when
  that message is empty. It differs from the rate-limit text whenever the carried
  message does.
\<close>

theorem rate_limit_is_told_apart:
  assumes "k < length (inflight s)" and "\<not> reading (inflight s ! k)"
    and "\<not> response_ok code" and "detail_not_null body"
  shows "let s' = step rt (FetchSettles k (FetchResponds code body)) s;
             e = http_error rt code body
         in (code = 429 \<longrightarrow> error s' = Some rate_limit_error) \<and>
            (code \<noteq> 429 \<longrightarrow>
               error s' = Some (if message e \<noteq> [] then message e else send_failed_error)) \<and>
            (code \<noteq> 429 \<and> message e \<noteq> rate_limit_error \<longrightarrow>
               error s' \<noteq> Some rate_limit_error) \<and>
            (body = None \<longrightarrow> message e = ''HTTP error! status: '' @ string_of_nat code) \<and>
            (\<forall>d. body = Some (JObj [(''detail'', JStr d)]) \<and> d \<noteq> [] \<longrightarrow> message e = d)"
proof -
  define e where "e = http_error rt code body"
  define s' where "s' = step rt (FetchSettles k (FetchResponds code body)) s"
  have e: "name e = ''Error''" "status e = Some code"
    unfolding e_def by (rule http_error_not_null [OF assms(4)])+
  have "s' = finally_branch k (catch_branch e (aiMessageId (inflight s ! k)) s)"
    unfolding s'_def e_def using assms(1-3) by (simp add: fetch_settles_def Let_def)
  then have err: "error s' = Some (if code = 429 then rate_limit_error
                              else if message e \<noteq> [] then message e
                              else send_failed_error)"
    by (simp add: catch_branch_def e)
  have differ: "send_failed_error \<noteq> rate_limit_error"
    by (simp add: send_failed_error_def rate_limit_error_def)
  have none: "body = None \<longrightarrow> message e = ''HTTP error! status: '' @ string_of_nat code"
    unfolding e_def by (simp add: http_error_no_body)
  have detail: "\<forall>d. body = Some (JObj [(''detail'', JStr d)]) \<and> d \<noteq> [] \<longrightarrow> message e = d"
    unfolding e_def by (simp add: http_error_text_detail)
  from err differ none detail
  have "(code = 429 \<longrightarrow> error s' = Some rate_limit_error) \<and>
        (code \<noteq> 429 \<longrightarrow>
           error s' = Some (if message e \<noteq> [] then message e else send_failed_error)) \<and>
        (code \<noteq> 429 \<and> message e \<noteq> rate_limit_error \<longrightarrow>
           error s' \<noteq> Some rate_limit_error) \<and>
        (body = None \<longrightarrow> message e = ''HTTP error! status: '' @ string_of_nat code) \<and>
        (\<forall>d. body = Some (JObj [(''detail'', JStr d)]) \<and> d \<noteq> [] \<longrightarrow> message e = d)"
    by auto
  then show ?thesis
    unfolding Let_def e_def s'_def .
qed

theorem rate_limit_is_told_apart_witness:
  "0 < length (inflight (run wire_runtime dana_asks first_load)) \<and>
   \<not> reading (inflight (run wire_runtime dana_asks first_load) ! 0) \<and>
   \<not> response_ok 429 \<and> \<not> response_ok 500 \<and>
   detail_not_null (Some (JObj [(''detail'', JStr ''Rate limit exceeded'')])) \<and>
   detail_not_null (Some (JObj [(''detail'', JStr ''Internal Server Error'')])) \<and>
   error (step wire_runtime (FetchSettles 0 rate_limited) (run wire_runtime dana_asks first_load))
     = Some rate_limit_error \<and>
   error (step wire_runtime (FetchSettles 0 server_failed) (run wire_runtime dana_asks first_load))
     = Some ''Internal Server Error''"
proof -
  have a: "0 < length (inflight (run wire_runtime dana_asks first_load))" by code_simp
  have b: "\<not> reading (inflight (run wire_runtime dana_asks first_load) ! 0)" by code_simp
  have c: "\<not> response_ok 429" "\<not> response_ok 500" by (simp_all add: response_ok_def)
  have d: "detail_not_null (Some (JObj [(''detail'', JStr ''Rate limit exceeded'')]))"
    "detail_not_null (Some (JObj [(''detail'', JStr ''Internal Server Error'')]))"
    by (simp_all add: detail_not_null_def)
  from rate_limit_is_told_apart [OF a b c(1) d(1), of wire_runtime]
    rate_limit_is_told_apart [OF a b c(2) d(2), of wire_runtime]
    a b c d
  show ?thesis
    by (simp add: Let_def rate_limited_def server_failed_def del: step.simps)
qed

text \<open>
  Claim C7 as stated fails: a status 500 whose \<open>detail\<close> is the very sentence of the
  rate-limit text shows that text, and a status 429 whose \<open>detail\<close> is \<open>null\<close> does not
  show it.
\<close>

theorem other_status_can_show_rate_limit_text:
  "error (run wire_runtime
       (dana_asks @ [FetchSettles 0 (FetchResponds 500
          (Some (JObj [(''detail'', JStr rate_limit_error)])))]) first_load)
     = Some rate_limit_error \<and>
   error (run wire_runtime
       (dana_asks @ [FetchSettles 0 (FetchResponds 429
          (Some (JObj [(''detail'', JNull)])))]) first_load)
     \<noteq> Some rate_limit_error"
  by code_simp

text \<open>
  Claim C8. Starting a chat with a name yields a session identifier that is not empty
  and, as the only message, an assistant welcome that contains the name, and the chat is
  started. When the request fails, times out or is answered with a status that is not
  ok, the identifier is the local random one and the welcome is the local text with the
  name. When the server answers ok, both are the server's, which the hook does not
  check: they are as the claim says for a reply that conforms to the interface
  (\<open>reply_conforms\<close>). The company and the job input are arbitrary, so in particular
  there may be none.
\<close>

theorem start_yields_id_and_welcome:
  assumes "uuid \<noteq> []" and "reply_conforms n outcome"
  shows "let s' = handleStart n c jobInput token uuid outcome now s in
     sessionId s' \<noteq> [] \<and>
     length (messages s') = 1 \<and>
     msg_id (hd (messages s')) = now \<and>
     role (hd (messages s')) = Assistant \<and>
     sublist n (content (hd (messages s'))) \<and>
     hasStarted s' \<and>
     ((\<forall>data. outcome \<noteq> SessionOk data) \<longrightarrow>
        sessionId s' = uuid \<and> content (hd (messages s')) = local_welcome_message n c)"
proof (cases outcome)
  case (SessionOk data)
  with assms show ?thesis
    by (simp add: handleStart_def handleStart_call_def handleStart_settle_def Let_def
        reply_conforms_def)
next
  case SessionNotOk
  have "sublist n (local_welcome_message n c)"
    unfolding local_welcome_message_def by (rule sublist_appendI)
  with assms SessionNotOk show ?thesis
    by (simp add: handleStart_def handleStart_call_def handleStart_settle_def Let_def)
next
  case SessionThrew
  have "sublist n (local_welcome_message n c)"
    unfolding local_welcome_message_def by (rule sublist_appendI)
  with assms SessionThrew show ?thesis
    by (simp add: handleStart_def handleStart_call_def handleStart_settle_def Let_def)
qed

theorem start_yields_id_and_welcome_witness:
  "''0b8f6a3e-5c1d-4e2a-9f7b-2d4c6e8a0b1c'' \<noteq> [] \<and>
   reply_conforms ''Dana'' SessionThrew \<and> reply_conforms ''Dana'' (SessionOk dana_welcome) \<and>
   sessionId (handleStart ''Dana'' [] (Some []) None ''0b8f6a3e-5c1d-4e2a-9f7b-2d4c6e8a0b1c''
      SessionThrew 1700000000000 first_load) = ''0b8f6a3e-5c1d-4e2a-9f7b-2d4c6e8a0b1c'' \<and>
   sublist ''Dana'' (content (hd (messages
     (handleStart ''Dana'' [] (Some []) None ''0b8f6a3e-5c1d-4e2a-9f7b-2d4c6e8a0b1c''
        SessionThrew 1700000000000 first_load)))) \<and>
   hasStarted (handleStart ''Dana'' [] (Some []) None ''0b8f6a3e-5c1d-4e2a-9f7b-2d4c6e8a0b1c''
      SessionThrew 1700000000000 first_load) \<and>
   sessionId (handleStart ''Dana'' [] (Some []) None ''0b8f6a3e-5c1d-4e2a-9f7b-2d4c6e8a0b1c''
      (SessionOk dana_welcome) 1700000000000 first_load) \<noteq> [] \<and>
   sublist ''Dana'' (content (hd (messages
     (handleStart ''Dana'' [] (Some []) None ''0b8f6a3e-5c1d-4e2a-9f7b-2d4c6e8a0b1c''
        (SessionOk dana_welcome) 1700000000000 first_load))))"
proof -
  have u: "''0b8f6a3e-5c1d-4e2a-9f7b-2d4c6e8a0b1c'' \<noteq> []" by simp
  have threw: "reply_conforms ''Dana'' SessionThrew" by (simp add: reply_conforms_def)
  have ok: "reply_conforms ''Dana'' (SessionOk dana_welcome)" by code_simp
  from u threw ok
    start_yields_id_and_welcome [OF u threw, of "[]" "Some []" None 1700000000000 first_load,
      unfolded Let_def]
    start_yields_id_and_welcome [OF u ok, of "[]" "Some []" None 1700000000000 first_load,
      unfolded Let_def]
  show ?thesis
    by blast
qed

text \<open>
  Claim C9. In every session request that a run sends, the job text and the job URL
  exclude one another: at most one of \<open>job_posting\<close> and \<open>job_url\<close> is not \<open>null\<close>. The
  request that \<open>handleStart\<close> sends carries the input as the URL exactly when its
  trimmed, lower-cased form starts with \<open>http\<close>, and as the text when it does not and is
  not empty.
\<close>

theorem job_text_and_url_exclusive:
  "(\<forall>r. SessionRequest r \<in> set (network (run rt evs first_load)) \<longrightarrow>
        job_posting r = None \<or> job_url r = None) \<and>
   network (step rt (StartCall n c jobInput token uuid) s) =
     network s @ [SessionRequest (session_request_body n c jobInput token)] \<and>
   job_url (session_request_body n c (Some j) token) =
     (if prefix ''http'' (toLowerCase (trim j)) then Some j else None) \<and>
   job_posting (session_request_body n c (Some j) token) =
     (if prefix ''http'' (toLowerCase (trim j)) \<or> j = [] then None else Some j) \<and>
   job_url (session_request_body n c None token) = None \<and>
   job_posting (session_request_body n c None token) = None"
proof -
  have "requests_ok (run rt evs first_load)"
    by (rule requests_ok_run [OF requests_ok_first_load])
  then have "\<forall>r. SessionRequest r \<in> set (network (run rt evs first_load)) \<longrightarrow>
        job_posting r = None \<or> job_url r = None"
    by (simp add: requests_ok_def)
  moreover have "network (step rt (StartCall n c jobInput token uuid) s) =
     network s @ [SessionRequest (session_request_body n c jobInput token)]"
    by (simp add: handleStart_call_def)
  moreover have "job_url (session_request_body n c (Some j) token) =
     (if prefix ''http'' (toLowerCase (trim j)) then Some j else None)"
    by (simp add: session_request_body_def isUrl_def)
  moreover have "job_posting (session_request_body n c (Some j) token) =
     (if prefix ''http'' (toLowerCase (trim j)) \<or> j = [] then None else Some j)"
    by (simp add: session_request_body_def isUrl_def or_null_def)
  moreover have "job_url (session_request_body n c None token) = None"
      "job_posting (session_request_body n c None token) = None"
    by (simp_all add: session_request_body_def isUrl_def)
  ultimately show ?thesis by blast
qed

theorem job_text_and_url_exclusive_witness:
  "SessionRequest (session_request_body ''Dana'' ''Acme'' (Some ''HTTPS://jobs.example.com/42'') None)
     \<in> set (network (run wire_runtime [url_start] first_load)) \<and>
   job_posting (session_request_body ''Dana'' ''Acme'' (Some ''HTTPS://jobs.example.com/42'') None) = None \<and>
   job_url (session_request_body ''Dana'' ''Acme'' (Some ''HTTPS://jobs.example.com/42'') None)
     = Some ''HTTPS://jobs.example.com/42'' \<and>
   job_posting (session_request_body ''Dana'' [] (Some ''Senior engineer, Python'') None)
     = Some ''Senior engineer, Python'' \<and>
   job_url (session_request_body ''Dana'' [] (Some ''Senior engineer, Python'') None) = None"
proof -
  have sent: "SessionRequest (session_request_body ''Dana'' ''Acme'' (Some ''HTTPS://jobs.example.com/42'') None)
     \<in> set (network (run wire_runtime [url_start] first_load))"
    by (simp add: url_start_def handleStart_call_def first_load_def initial_def)
  have url: "prefix ''http'' (toLowerCase (trim ''HTTPS://jobs.example.com/42''))"
    by code_simp
  have plain: "\<not> prefix ''http'' (toLowerCase (trim ''Senior engineer, Python''))"
    by code_simp
  from sent url
    job_text_and_url_exclusive [where rt = wire_runtime and evs = "[url_start]"
      and n = "''Dana''" and c = "''Acme''" and token = None
      and j = "''HTTPS://jobs.example.com/42''"]
  have a: "job_posting (session_request_body ''Dana'' ''Acme'' (Some ''HTTPS://jobs.example.com/42'') None) = None \<and>
   job_url (session_request_body ''Dana'' ''Acme'' (Some ''HTTPS://jobs.example.com/42'') None)
     = Some ''HTTPS://jobs.example.com/42''"
    by (simp del: run_Cons)
  from plain
    job_text_and_url_exclusive [where rt = wire_runtime and evs = "[]"
      and n = "''Dana''" and c = "[]" and token = None
      and j = "''Senior engineer, Python''"]
  have b: "job_posting (session_request_body ''Dana'' [] (Some ''Senior engineer, Python'') None)
     = Some ''Senior engineer, Python'' \<and>
   job_url (session_request_body ''Dana'' [] (Some ''Senior engineer, Python'') None) = None"
    by simp
  from sent a b show ?thesis by blast
qed

text \<open>
  Claim C10. Sending an empty query, or one of white space only, changes nothing: the
  whole state stays as it is, and with it the messages, the loading flag, the error,
  the session and the log of the requests sent.
\<close>

theorem blank_query_is_noop:
  "trim messageText = [] \<Longrightarrow> step rt (SendMessage messageText now1 now2) s = s"
  by (simp add: sendMessage_def)

theorem blank_query_is_noop_witness:
  "trim ([CHR 0x20, CHR 0x09] @ LF @ [CHR 0xC2, CHR 0xA0, CHR 0x20]) = [] \<and>
   step wire_runtime (SendMessage ([CHR 0x20, CHR 0x09] @ LF @ [CHR 0xC2, CHR 0xA0, CHR 0x20])
       1700000005000 1700000005000) (run wire_runtime dana_starts first_load)
     = run wire_runtime dana_starts first_load"
proof -
  have blank: "trim ([CHR 0x20, CHR 0x09] @ LF @ [CHR 0xC2, CHR 0xA0, CHR 0x20]) = []"
    by code_simp
  from blank blank_query_is_noop [OF blank] show ?thesis
    by simp
qed

end
